theory Spec2Isabelle
  imports Main "HOL-Library.Sublist"
begin

section \<open>Production build: options, plugins, output targets and warnings\<close>

text \<open>
  A shallow embedding of \<^verbatim>\<open>packages/vite/src/node/build.ts\<close>. A property that the
  code only reads is a field of type \<open>T option\<close>: \<open>None\<close> when the read gives
  \<^verbatim>\<open>undefined\<close>, \<open>Some v\<close> when it gives a value \<open>v\<close> of the declared type.
  The build options go through an object spread, which tells a property that is absent from
  one that is present with the value \<^verbatim>\<open>undefined\<close>; their fields are of type
  \<open>T property\<close>. A thrown error is the \<open>Inl\<close> side of a sum. Functions imported from
  other modules (\<^verbatim>\<open>chalk\<close>, \<^verbatim>\<open>isbuiltin\<close>, \<^verbatim>\<open>lookupFile\<close>,
  \<^verbatim>\<open>JSON.parse\<close>) are parameters.
\<close>

subsection \<open>JavaScript values\<close>

text \<open>Truthiness of an optional string: \<^verbatim>\<open>undefined\<close> and \<^verbatim>\<open>''\<close> are falsy.\<close>

fun truthy :: "string option \<Rightarrow> bool" where
  "truthy None = False"
| "truthy (Some s) = (s \<noteq> [])"

text \<open>An optional string inside a template literal: \<^verbatim>\<open>`${x}`\<close>.\<close>

fun js_string :: "string option \<Rightarrow> string" where
  "js_string None = ''undefined''"
| "js_string (Some s) = s"

datatype error = Error string | SyntaxError | TypeError

subsection \<open>Data model\<close>

text \<open>\<^verbatim>\<open>boolean | 'inline'\<close>\<close>

datatype sourcemap_value = SourcemapBool bool | SourcemapInline

text \<open>
  \<^verbatim>\<open>boolean | 'terser' | 'esbuild'\<close> by declaration; the code also tests for the string
  \<^verbatim>\<open>'false'\<close>, so the field holds a boolean or any string.
\<close>

datatype minify_value = MinifyBool bool | MinifyStr string

text \<open>
  Truthiness of \<^verbatim>\<open>options.minify\<close>: \<^verbatim>\<open>undefined\<close>, \<^verbatim>\<open>false\<close> and
  \<^verbatim>\<open>''\<close> are falsy.
\<close>

fun minify_truthy :: "minify_value option \<Rightarrow> bool" where
  "minify_truthy None = False"
| "minify_truthy (Some (MinifyBool b)) = b"
| "minify_truthy (Some (MinifyStr s)) = (s \<noteq> [])"

text \<open>\<^verbatim>\<open>type LibraryFormats = 'es' | 'cjs' | 'umd' | 'iife'\<close>\<close>

datatype LibraryFormats = Es | Cjs | Umd | Iife

text \<open>The string a format is at run time, as Rollup's \<^verbatim>\<open>OutputOptions.format\<close> holds it.\<close>

fun format_string :: "LibraryFormats \<Rightarrow> string" where
  "format_string Es = ''es''"
| "format_string Cjs = ''cjs''"
| "format_string Umd = ''umd''"
| "format_string Iife = ''iife''"

record LibraryOptions =
  entry :: string
  name :: "string option"
  formats :: "LibraryFormats list option"

text \<open>
  Rollup's \<^verbatim>\<open>OutputOptions\<close>, with the properties that \<^verbatim>\<open>generate\<close> sets. Every
  property is optional; \<^verbatim>\<open>{}\<close> is \<open>emptyOutputOptions\<close>.
\<close>

record OutputOptions =
  dir :: "string option"
  format :: "string option"
  exports :: "string option"
  sourcemap :: "sourcemap_value option"
  name :: "string option"
  entryFileNames :: "string option"
  chunkFileNames :: "string option"
  assetFileNames :: "string option"
  namespaceToStringTag :: "bool option"

definition emptyOutputOptions :: OutputOptions where
  "emptyOutputOptions =
     \<lparr> dir = None, format = None, exports = None, sourcemap = None, name = None,
       entryFileNames = None, chunkFileNames = None, assetFileNames = None,
       namespaceToStringTag = None \<rparr>"

text \<open>\<^verbatim>\<open>OutputOptions | OutputOptions[]\<close>\<close>

datatype Outputs = Single OutputOptions | Array "OutputOptions list"

text \<open>
  A plugin object supplied by the user is opaque here and stands by its
  \<^verbatim>\<open>name\<close> property. \<^verbatim>\<open>RollupOptions\<close> carries the properties this file reads
  (\<open>output'\<close> is its \<^verbatim>\<open>output\<close>).
\<close>

type_synonym RollupPlugin = string

type_synonym TerserMinifyOptions = "(string \<times> string) list"

record RollupOptions =
  input :: "string option"
  plugins :: "RollupPlugin list option"
  output' :: "Outputs option"

definition emptyRollupOptions :: RollupOptions where
  "emptyRollupOptions = \<lparr> input = None, plugins = None, output' = None \<rparr>"

text \<open>
  A property of an object that is spread: absent, or present with a value or with
  \<^verbatim>\<open>undefined\<close> (\<open>Present None\<close>), which \<^verbatim>\<open>p?: T\<close> admits as well.
\<close>

datatype 'a property = Absent | Present "'a option"

text \<open>
  \<^verbatim>\<open>interface BuildOptions\<close>: what the user writes. The value \<^verbatim>\<open>false\<close> of
  \<^verbatim>\<open>lib\<close> is \<open>None :: LibraryOptions option\<close>; \<open>write'\<close> is the property
  \<^verbatim>\<open>write\<close>.
\<close>

record BuildOptions =
  base :: "string property"
  outDir :: "string property"
  assetsDir :: "string property"
  assetsInlineLimit :: "int property"
  cssCodeSplit :: "bool property"
  sourcemap :: "sourcemap_value property"
  minify :: "minify_value property"
  terserOptions :: "TerserMinifyOptions property"
  rollupOptions :: "RollupOptions property"
  write' :: "bool property"
  manifest :: "bool property"
  lib :: "LibraryOptions option property"

text \<open>
  \<^verbatim>\<open>Required<BuildOptions>\<close> as it is at run time: every property is present, and
  holds a value or the \<^verbatim>\<open>undefined\<close> that the spread copied from the raw options
  (\<open>None\<close>). For \<^verbatim>\<open>lib\<close>, \<open>Some None\<close> is \<^verbatim>\<open>false\<close>.
\<close>

record ResolvedBuildOptions =
  base :: "string option"
  outDir :: "string option"
  assetsDir :: "string option"
  assetsInlineLimit :: "int option"
  cssCodeSplit :: "bool option"
  sourcemap :: "sourcemap_value option"
  minify :: "minify_value option"
  terserOptions :: "TerserMinifyOptions option"
  rollupOptions :: "RollupOptions option"
  write' :: "bool option"
  manifest :: "bool option"
  lib :: "LibraryOptions option option"

text \<open>A \<^verbatim>\<open>Required<BuildOptions>\<close> object read at type \<^verbatim>\<open>BuildOptions\<close>.\<close>

definition asBuildOptions :: "ResolvedBuildOptions \<Rightarrow> BuildOptions" where
  "asBuildOptions r =
     \<lparr> BuildOptions.base = Present (ResolvedBuildOptions.base r),
       BuildOptions.outDir = Present (ResolvedBuildOptions.outDir r),
       BuildOptions.assetsDir = Present (ResolvedBuildOptions.assetsDir r),
       BuildOptions.assetsInlineLimit = Present (ResolvedBuildOptions.assetsInlineLimit r),
       BuildOptions.cssCodeSplit = Present (ResolvedBuildOptions.cssCodeSplit r),
       BuildOptions.sourcemap = Present (ResolvedBuildOptions.sourcemap r),
       BuildOptions.minify = Present (ResolvedBuildOptions.minify r),
       BuildOptions.terserOptions = Present (ResolvedBuildOptions.terserOptions r),
       BuildOptions.rollupOptions = Present (ResolvedBuildOptions.rollupOptions r),
       BuildOptions.write' = Present (ResolvedBuildOptions.write' r),
       BuildOptions.manifest = Present (ResolvedBuildOptions.manifest r),
       BuildOptions.lib = Present (ResolvedBuildOptions.lib r) \<rparr>"

subsection \<open>resolveBuildOptions\<close>

text \<open>
  One property of the object literal \<^verbatim>\<open>{ p: d, ...raw }\<close>: what \<^verbatim>\<open>raw\<close> holds
  when \<^verbatim>\<open>raw\<close> has the property, be it \<^verbatim>\<open>undefined\<close>, and the default
  otherwise.
\<close>

fun spread :: "'a option \<Rightarrow> 'a property \<Rightarrow> 'a option" where
  "spread d Absent = d"
| "spread d (Present v) = v"

definition defaultBuildOptions :: ResolvedBuildOptions where
  "defaultBuildOptions =
     \<lparr> base = Some ''/'', outDir = Some ''dist'', assetsDir = Some ''assets'',
       assetsInlineLimit = Some 4096, cssCodeSplit = Some True,
       sourcemap = Some (SourcemapBool False), minify = Some (MinifyStr ''terser''),
       terserOptions = Some [], rollupOptions = Some emptyRollupOptions, write' = Some True,
       manifest = Some False, lib = Some None \<rparr>"

definition spreadBuildOptions :: "ResolvedBuildOptions \<Rightarrow> BuildOptions \<Rightarrow> ResolvedBuildOptions" where
  "spreadBuildOptions d raw =
     \<lparr> base = spread (ResolvedBuildOptions.base d) (BuildOptions.base raw),
       outDir = spread (ResolvedBuildOptions.outDir d) (BuildOptions.outDir raw),
       assetsDir = spread (ResolvedBuildOptions.assetsDir d) (BuildOptions.assetsDir raw),
       assetsInlineLimit =
         spread (ResolvedBuildOptions.assetsInlineLimit d) (BuildOptions.assetsInlineLimit raw),
       cssCodeSplit = spread (ResolvedBuildOptions.cssCodeSplit d) (BuildOptions.cssCodeSplit raw),
       sourcemap = spread (ResolvedBuildOptions.sourcemap d) (BuildOptions.sourcemap raw),
       minify = spread (ResolvedBuildOptions.minify d) (BuildOptions.minify raw),
       terserOptions = spread (ResolvedBuildOptions.terserOptions d) (BuildOptions.terserOptions raw),
       rollupOptions = spread (ResolvedBuildOptions.rollupOptions d) (BuildOptions.rollupOptions raw),
       write' = spread (ResolvedBuildOptions.write' d) (BuildOptions.write' raw),
       manifest = spread (ResolvedBuildOptions.manifest d) (BuildOptions.manifest raw),
       lib = spread (ResolvedBuildOptions.lib d) (BuildOptions.lib raw) \<rparr>"

text \<open>
  \<^verbatim>\<open>s.replace(/([^/])$/, '$1/')\<close>: the pattern matches one character other than
  \<^verbatim>\<open>/\<close> at the very end of the string, and the replacement is that character followed by
  \<^verbatim>\<open>/\<close>. Without a match the string is returned as it is.
\<close>

definition ensureEndingSlash :: "string \<Rightarrow> string" where
  "ensureEndingSlash s =
     (if s \<noteq> [] \<and> last s \<noteq> CHR ''/'' then butlast s @ [last s] @ ''/'' else s)"

text \<open>
  The call \<^verbatim>\<open>resolved.base.replace\<close> throws a \<^verbatim>\<open>TypeError\<close> when
  \<^verbatim>\<open>resolved.base\<close> is \<^verbatim>\<open>undefined\<close>, before \<^verbatim>\<open>minify\<close> is looked at.
\<close>

definition resolveBuildOptions :: "BuildOptions option \<Rightarrow> error + ResolvedBuildOptions" where
  "resolveBuildOptions raw =
     (let resolved = (case raw of None \<Rightarrow> defaultBuildOptions
                      | Some r \<Rightarrow> spreadBuildOptions defaultBuildOptions r)
      in case ResolvedBuildOptions.base resolved of
           None \<Rightarrow> Inl TypeError
         | Some b \<Rightarrow>
             (let resolved = resolved\<lparr> base := Some (ensureEndingSlash b) \<rparr>;
                  resolved = (if ResolvedBuildOptions.minify resolved = Some (MinifyStr ''false'')
                              then resolved\<lparr> minify := Some (MinifyBool False) \<rparr> else resolved)
              in Inr resolved))"

subsection \<open>resolveBuildPlugins\<close>

text \<open>
  The elements of the returned array: a plugin of the user, or the object one of the plugin
  factories returns for this configuration.
\<close>

datatype Plugin =
    userPlugin RollupPlugin
  | commonjsPlugin
  | buildHtmlPlugin
  | buildDefinePlugin
  | dynamicImportVars
  | buildEsbuildPlugin
  | terserPlugin "TerserMinifyOptions option"
  | manifestPlugin
  | buildReporterPlugin

text \<open>\<^verbatim>\<open>ResolvedConfig\<close>, with the properties this file reads in assembling plugins.\<close>

record ResolvedConfig =
  build :: ResolvedBuildOptions
  logLevel :: "string option"

text \<open>
  The first element of the array literal reads \<^verbatim>\<open>options.rollupOptions.plugins\<close>,
  which throws a \<^verbatim>\<open>TypeError\<close> when \<^verbatim>\<open>rollupOptions\<close> is
  \<^verbatim>\<open>undefined\<close>.
\<close>

definition resolveBuildPlugins :: "ResolvedConfig \<Rightarrow> error + Plugin list" where
  "resolveBuildPlugins config =
     (let options = build config in
      case ResolvedBuildOptions.rollupOptions options of
        None \<Rightarrow> Inl TypeError
      | Some rollupOpts \<Rightarrow>
          Inr (map userPlugin (case plugins rollupOpts of None \<Rightarrow> [] | Some ps \<Rightarrow> ps)
               @ [commonjsPlugin, buildHtmlPlugin, buildDefinePlugin, dynamicImportVars,
                  buildEsbuildPlugin]
               @ (if minify_truthy (ResolvedBuildOptions.minify options)
                     \<and> ResolvedBuildOptions.minify options \<noteq> Some (MinifyStr ''esbuild'')
                  then [terserPlugin (ResolvedBuildOptions.terserOptions options)] else [])
               @ (if ResolvedBuildOptions.manifest options = Some True then [manifestPlugin] else [])
               @ (if \<not> truthy (logLevel config) \<or> logLevel config = Some ''info''
                  then [buildReporterPlugin] else [])))"

subsection \<open>resolveBuildOutputs\<close>

text \<open>The two styling functions of \<^verbatim>\<open>chalk\<close> that the modelled code calls.\<close>

record chalk =
  yellow :: "string \<Rightarrow> string"
  gray :: "string \<Rightarrow> string"

text \<open>\<^verbatim>\<open>libOptions.formats || ['es', 'umd']\<close>: an array is truthy, the empty one too.\<close>

definition requestedFormats :: "LibraryOptions \<Rightarrow> LibraryFormats list" where
  "requestedFormats libOpts = (case formats libOpts of None \<Rightarrow> [Es, Umd] | Some fs \<Rightarrow> fs)"

text \<open>
  The result is the thrown error, or the returned value together with the messages
  passed to \<^verbatim>\<open>logger.warn\<close>, in order.
\<close>

definition resolveBuildOutputs ::
  "chalk \<Rightarrow> Outputs option \<Rightarrow> LibraryOptions option \<Rightarrow> error + (Outputs option \<times> string list)" where
  \<open>resolveBuildOutputs chalk outputs libOptions =
     (case libOptions of
        None \<Rightarrow> Inr (outputs, [])
      | Some libOpts \<Rightarrow>
          (let fmts = requestedFormats libOpts in
           if (Umd \<in> set fmts \<or> Iife \<in> set fmts) \<and> \<not> truthy (LibraryOptions.name libOpts)
           then Inl (Error (''Option "build.lib.name" is required when output formats ''
                            @ ''include "umd" or "iife".''))
           else
             (case outputs of
                None \<Rightarrow>
                  Inr (Some (Array (map (\<lambda>fmt. emptyOutputOptions\<lparr> format := Some (format_string fmt) \<rparr>)
                                        fmts)), [])
              | Some (Single out) \<Rightarrow>
                  Inr (Some (Array (map (\<lambda>fmt. out\<lparr> format := Some (format_string fmt) \<rparr>) fmts)), [])
              | Some (Array outs) \<Rightarrow>
                  (if formats libOpts \<noteq> None
                   then Inr (outputs,
                          [yellow chalk (''"build.lib.formats" will be ignored because ''
                             @ ''"build.rollupOptions.output" is already an array format'')])
                   else Inr (outputs, [])))))\<close>

text \<open>
  The end of \<^verbatim>\<open>doBuild\<close>: the arguments of the calls of \<^verbatim>\<open>generate\<close>, one call
  per element of an array, one call otherwise (\<^verbatim>\<open>generate\<close> reads \<^verbatim>\<open>undefined\<close>
  as \<^verbatim>\<open>{}\<close>).
\<close>

fun generateCalls :: "Outputs option \<Rightarrow> OutputOptions list" where
  "generateCalls (Some (Array outs)) = outs"
| "generateCalls (Some (Single out)) = [out]"
| "generateCalls None = [emptyOutputOptions]"

subsection \<open>onRollupWarning\<close>

record loc =
  line :: int
  column :: int

record RollupWarning =
  code :: "string option"
  message :: string
  source :: "string option"
  importer :: "string option"
  plugin :: "string option"
  loc :: "loc option"
  frame :: "string option"

text \<open>A parsed \<^verbatim>\<open>package.json\<close>, with the one property read from it.\<close>

record PackageJson =
  name :: "string option"

text \<open>
  What the function imports: \<^verbatim>\<open>isBuiltin\<close>, \<^verbatim>\<open>lookupFile\<close> (the content of the
  nearest file of the given names, or \<^verbatim>\<open>undefined\<close>) and \<^verbatim>\<open>JSON.parse\<close>
  (\<open>None\<close> when it throws a \<^verbatim>\<open>SyntaxError\<close>).
\<close>

record externals =
  isBuiltin :: "string \<Rightarrow> bool"
  lookupFile :: "string \<Rightarrow> string list \<Rightarrow> string option"
  JSON_parse :: "string \<Rightarrow> PackageJson option"
  styles :: chalk

definition warningIgnoreList :: "string list" where
  "warningIgnoreList = [''CIRCULAR_DEPENDENCY'', ''THIS_IS_UNDEFINED'']"

definition dynamicImportWarningIgnoreList :: "string list" where
  "dynamicImportWarningIgnoreList = [''Unsupported expression'', ''statically analyzed'']"

text \<open>What \<^verbatim>\<open>onRollupWarning\<close> does with a handler before it returns.\<close>

datatype 'h handler_call =
    CallUserOnWarn 'h RollupWarning
  | CallWarn RollupWarning

text \<open>
  \<^verbatim>\<open>JSON.parse(lookupFile(importer, ['package.json']) || `{}`)\<close>
\<close>

definition importerPackage :: "externals \<Rightarrow> string \<Rightarrow> PackageJson option" where
  "importerPackage ext imp =
     JSON_parse ext
       (let found = lookupFile ext imp [''package.json''] in
        if truthy found then js_string found else ''{}'')"

text \<open>
  The variable \<^verbatim>\<open>importingDep\<close> after the lookup: the name in the importer's
  package, when there is an importer and the name is truthy; \<open>Inl\<close> when
  \<^verbatim>\<open>JSON.parse\<close> throws.
\<close>

definition importingDepOf :: "externals \<Rightarrow> string option \<Rightarrow> error + string option" where
  "importingDepOf ext imp =
     (if truthy imp then
        (case importerPackage ext (js_string imp) of
           None \<Rightarrow> Inl SyntaxError
         | Some pkg \<Rightarrow> Inr (if truthy (PackageJson.name pkg) then PackageJson.name pkg else None))
      else Inr None)"

text \<open>
  The result is the thrown error, or the handler call made before returning
  (\<open>None\<close>: the function returns having called neither handler). An omitted
  \<^verbatim>\<open>allowNodeBuiltins\<close> is \<open>None\<close> and reads as the empty list.
\<close>

definition onRollupWarning ::
  "externals \<Rightarrow> RollupWarning \<Rightarrow> string list option \<Rightarrow> 'h option \<Rightarrow> error + 'h handler_call option" where
  \<open>onRollupWarning ext warning allowNodeBuiltinsArg userOnWarn =
     (let allowNodeBuiltins = (case allowNodeBuiltinsArg of None \<Rightarrow> [] | Some l \<Rightarrow> l) in
      if code warning = Some ''UNRESOLVED_IMPORT'' then
        (let id = source warning; imp = importer warning in
         if truthy id \<and> isBuiltin ext (js_string id) then
           (case importingDepOf ext imp of
              Inl e \<Rightarrow> Inl e
            | Inr importingDep \<Rightarrow>
                if truthy importingDep \<and> js_string importingDep \<in> set allowNodeBuiltins
                then Inr None
                else
                  (let dep = (if truthy importingDep
                              then ''Dependency '' @ yellow (styles ext) (js_string importingDep)
                              else ''A dependency'') in
                   Inl (Error
                     (dep @ '' is attempting to import Node built-in module ''
                      @ yellow (styles ext) (js_string id) @ ''.\<newline>''
                      @ ''This will not work in a browser environment.\<newline>''
                      @ ''Imported by: '' @ gray (styles ext) (js_string imp)))))
         else
           Inl (Error
             (''[vite]: Rollup failed to resolve import "'' @ js_string (source warning)
              @ ''" from "'' @ js_string (importer warning) @ ''".\<newline>''
              @ ''This is most likely unintended because it can break your application at runtime.\<newline>''
              @ ''If you do want to externalize this module explicitly add it to\<newline>''
              @ ''`rollupInputOptions.external`'')))
      else if plugin warning = Some ''rollup-plugin-dynamic-import-variables''
              \<and> list_ex (\<lambda>msg. sublist msg (message warning)) dynamicImportWarningIgnoreList
      then Inr None
      else if \<not> (case code warning of None \<Rightarrow> False | Some c \<Rightarrow> c \<in> set warningIgnoreList)
      then (case userOnWarn of
              Some h \<Rightarrow> Inr (Some (CallUserOnWarn h warning))
            | None \<Rightarrow> Inr (Some (CallWarn warning)))
      else Inr None)\<close>

subsection \<open>Concrete inputs\<close>

text \<open>Styling switched off: \<^verbatim>\<open>chalk\<close> returns its argument.\<close>

definition plainChalk :: chalk where
  "plainChalk = \<lparr> yellow = (\<lambda>s. s), gray = (\<lambda>s. s) \<rparr>"

text \<open>
  A project in which the importer \<^verbatim>\<open>/app/node_modules/dep/index.js\<close> belongs to the
  package \<^verbatim>\<open>dep\<close>, and the importer \<^verbatim>\<open>/app/node_modules/anon/index.js\<close> to a
  package whose manifest gives the empty string as its name.
\<close>

definition exampleExternals :: externals where
  \<open>exampleExternals =
     \<lparr> isBuiltin = (\<lambda>id. id \<in> set [''fs'', ''path'', ''os'']),
       lookupFile = (\<lambda>dir names.
          if dir = ''/app/node_modules/dep/index.js'' then Some ''{"name":"dep"}''
          else if dir = ''/app/node_modules/anon/index.js'' then Some ''{"name":""}''
          else None),
       JSON_parse = (\<lambda>text.
          if text = ''{"name":"dep"}'' then Some \<lparr> name = Some ''dep'' \<rparr>
          else if text = ''{"name":""}'' then Some \<lparr> name = Some [] \<rparr>
          else if text = ''{}'' then Some \<lparr> name = None \<rparr>
          else None),
       styles = plainChalk \<rparr>\<close>

definition exampleWarning :: "string \<Rightarrow> string option \<Rightarrow> string option \<Rightarrow> RollupWarning" where
  "exampleWarning c src imp =
     \<lparr> code = Some c, message = ''warning'', source = src, importer = imp, plugin = None,
       loc = None, frame = None \<rparr>"

text \<open>\<^verbatim>\<open>{}\<close> as build options.\<close>

definition emptyBuildOptions :: BuildOptions where
  "emptyBuildOptions =
     \<lparr> BuildOptions.base = Absent, BuildOptions.outDir = Absent, BuildOptions.assetsDir = Absent,
       BuildOptions.assetsInlineLimit = Absent, BuildOptions.cssCodeSplit = Absent,
       BuildOptions.sourcemap = Absent, BuildOptions.minify = Absent,
       BuildOptions.terserOptions = Absent, BuildOptions.rollupOptions = Absent,
       BuildOptions.write' = Absent, BuildOptions.manifest = Absent, BuildOptions.lib = Absent \<rparr>"

definition exampleLibrary :: "string option \<Rightarrow> LibraryFormats list option \<Rightarrow> LibraryOptions" where
  "exampleLibrary n fs = \<lparr> entry = ''src/index.js'', LibraryOptions.name = n, formats = fs \<rparr>"

text \<open>The default build options with the given \<^verbatim>\<open>minify\<close>, logged at the default level.\<close>

definition exampleConfig :: "minify_value option \<Rightarrow> ResolvedConfig" where
  "exampleConfig m = \<lparr> build = defaultBuildOptions\<lparr> minify := m \<rparr>, logLevel = None \<rparr>"

section \<open>Warning classification\<close>

text \<open>
  C1. An \<^verbatim>\<open>UNRESOLVED_IMPORT\<close> warning whose module id is \<^verbatim>\<open>fs\<close>, a built-in
  module, with no importer and an empty (or omitted) allow-list, makes
  \<^verbatim>\<open>onRollupWarning\<close> throw, whatever the other fields and the user handler are. The
  message of the error contains the module id as \<^verbatim>\<open>chalk.yellow\<close> styles it; no
  handler is called.
\<close>

theorem onRollupWarning_unresolved_fs_escalates:
  assumes "code warning = Some ''UNRESOLVED_IMPORT''"
    and "source warning = Some ''fs''"
    and "importer warning = None"
    and "isBuiltin ext ''fs''"
    and "allowNodeBuiltins = None \<or> allowNodeBuiltins = Some []"
  shows "onRollupWarning ext warning allowNodeBuiltins userOnWarn =
           Inl (Error (''A dependency is attempting to import Node built-in module ''
                       @ yellow (styles ext) ''fs'' @ ''.\<newline>''
                       @ ''This will not work in a browser environment.\<newline>''
                       @ ''Imported by: '' @ gray (styles ext) ''undefined''))"
  using assms by (simp add: onRollupWarning_def importingDepOf_def)

theorem onRollupWarning_unresolved_fs_escalates_witness:
  "isBuiltin exampleExternals ''fs''
   \<and> onRollupWarning exampleExternals (exampleWarning ''UNRESOLVED_IMPORT'' (Some ''fs'') None)
       (Some []) (None :: unit option) =
     Inl (Error (''A dependency is attempting to import Node built-in module fs.\<newline>''
                 @ ''This will not work in a browser environment.\<newline>''
                 @ ''Imported by: undefined''))"
  using onRollupWarning_unresolved_fs_escalates
    [of "exampleWarning ''UNRESOLVED_IMPORT'' (Some ''fs'') None" exampleExternals "Some []"
        "None :: unit option"]
  by (simp add: exampleWarning_def exampleExternals_def plainChalk_def)

text \<open>
  C5. An \<^verbatim>\<open>UNRESOLVED_IMPORT\<close> warning names a built-in module by a
  non-empty id and has a non-empty importer; the package found from the importer has a
  non-empty name, and the allow-list contains that name. Then \<^verbatim>\<open>onRollupWarning\<close>
  returns without throwing and without calling the user handler or the default handler.
\<close>

theorem onRollupWarning_allowed_dependency_suppressed:
  assumes "code warning = Some ''UNRESOLVED_IMPORT''"
    and "source warning = Some modId" and "modId \<noteq> []" and "isBuiltin ext modId"
    and "importer warning = Some imp" and "imp \<noteq> []"
    and "importerPackage ext imp = Some pkg"
    and "PackageJson.name pkg = Some n" and "n \<noteq> []"
    and "allowNodeBuiltins = Some allowed" and "n \<in> set allowed"
  shows "onRollupWarning ext warning allowNodeBuiltins userOnWarn = Inr None"
  using assms by (simp add: onRollupWarning_def importingDepOf_def)

theorem onRollupWarning_allowed_dependency_suppressed_witness:
  "importerPackage exampleExternals ''/app/node_modules/dep/index.js'' = Some \<lparr> name = Some ''dep'' \<rparr>
   \<and> onRollupWarning exampleExternals
        (exampleWarning ''UNRESOLVED_IMPORT'' (Some ''fs'') (Some ''/app/node_modules/dep/index.js''))
        (Some [''dep'']) (None :: unit option) = Inr None"
proof -
  have pkg: "importerPackage exampleExternals ''/app/node_modules/dep/index.js''
               = Some \<lparr> name = Some ''dep'' \<rparr>"
    by (simp add: importerPackage_def exampleExternals_def)
  show ?thesis
    using pkg onRollupWarning_allowed_dependency_suppressed
      [of "exampleWarning ''UNRESOLVED_IMPORT'' (Some ''fs'') (Some ''/app/node_modules/dep/index.js'')"
          "''fs''" exampleExternals "''/app/node_modules/dep/index.js''" "\<lparr> name = Some ''dep'' \<rparr>"
          "''dep''" "Some [''dep'']" "[''dep'']" "None :: unit option"]
    by (simp add: exampleWarning_def exampleExternals_def)
qed

text \<open>
  The name that a manifest gives may be the empty string, which \<^verbatim>\<open>if (pkg.name)\<close>
  reads as no name: with \<^verbatim>\<open>fs\<close> imported from a package of that name and the
  allow-list \<^verbatim>\<open>['']\<close>, the name is in the list and the warning is escalated.
\<close>

theorem onRollupWarning_empty_name_counterexample:
  "code (exampleWarning ''UNRESOLVED_IMPORT'' (Some ''fs'') (Some ''/app/node_modules/anon/index.js''))
     = Some ''UNRESOLVED_IMPORT''
   \<and> isBuiltin exampleExternals ''fs''
   \<and> importerPackage exampleExternals ''/app/node_modules/anon/index.js'' = Some \<lparr> name = Some [] \<rparr>
   \<and> [] \<in> set [[]]
   \<and> onRollupWarning exampleExternals
        (exampleWarning ''UNRESOLVED_IMPORT'' (Some ''fs'') (Some ''/app/node_modules/anon/index.js''))
        (Some [[]]) (None :: unit option)
      = Inl (Error (''A dependency is attempting to import Node built-in module fs.\<newline>''
                 @ ''This will not work in a browser environment.\<newline>''
                 @ ''Imported by: /app/node_modules/anon/index.js''))"
  by (simp add: onRollupWarning_def importingDepOf_def importerPackage_def exampleWarning_def
      exampleExternals_def plainChalk_def)

text \<open>
  C6. A warning whose code is \<^verbatim>\<open>CIRCULAR_DEPENDENCY\<close> is suppressed: whatever its
  message, source, importer, plugin and location are, and whatever the allow-list and the
  user handler are, \<^verbatim>\<open>onRollupWarning\<close> returns without throwing and calls neither
  handler.
\<close>

theorem onRollupWarning_circular_dependency_suppressed:
  assumes "code warning = Some ''CIRCULAR_DEPENDENCY''"
  shows "onRollupWarning ext warning allowNodeBuiltins userOnWarn = Inr None"
  using assms by (simp add: onRollupWarning_def warningIgnoreList_def)

theorem onRollupWarning_circular_dependency_suppressed_witness:
  "code (exampleWarning ''CIRCULAR_DEPENDENCY'' (Some ''fs'') None) = Some ''CIRCULAR_DEPENDENCY''
   \<and> onRollupWarning exampleExternals (exampleWarning ''CIRCULAR_DEPENDENCY'' (Some ''fs'') None)
        None (Some (0::nat)) = Inr None"
  using onRollupWarning_circular_dependency_suppressed
    [of "exampleWarning ''CIRCULAR_DEPENDENCY'' (Some ''fs'') None" exampleExternals None
        "Some (0::nat)"]
  by (simp add: exampleWarning_def)

section \<open>Build options\<close>

lemma ensureEndingSlash_idem: "ensureEndingSlash (ensureEndingSlash s) = ensureEndingSlash s"
  by (simp add: ensureEndingSlash_def)

text \<open>
  \<^verbatim>\<open>resolveBuildOptions\<close> throws exactly when the raw options have the property
  \<^verbatim>\<open>base\<close> with the value \<^verbatim>\<open>undefined\<close>, and what it throws is a
  \<^verbatim>\<open>TypeError\<close>.
\<close>

lemma resolveBuildOptions_returns:
  "(\<exists>r. resolveBuildOptions raw = Inr r)
     \<longleftrightarrow> \<not> (\<exists>opts. raw = Some opts \<and> BuildOptions.base opts = Present None)"
proof (cases raw)
  case None
  then show ?thesis
    by (simp add: resolveBuildOptions_def defaultBuildOptions_def Let_def)
next
  case (Some opts)
  then show ?thesis
    by (cases "BuildOptions.base opts")
       (auto simp: resolveBuildOptions_def spreadBuildOptions_def defaultBuildOptions_def Let_def
             split: option.splits)
qed

lemma resolveBuildOptions_throws:
  "BuildOptions.base opts = Present None \<Longrightarrow> resolveBuildOptions (Some opts) = Inl TypeError"
  by (simp add: resolveBuildOptions_def spreadBuildOptions_def Let_def)

lemma resolveBuildOptions_base:
  "ResolvedBuildOptions.base (spreadBuildOptions defaultBuildOptions opts) = Some b
   \<Longrightarrow> \<exists>r. resolveBuildOptions (Some opts) = Inr r
          \<and> ResolvedBuildOptions.base r = Some (ensureEndingSlash b)"
  by (simp add: resolveBuildOptions_def Let_def)

text \<open>
  A non-empty base that does not end in \<^verbatim>\<open>/\<close> gets one \<^verbatim>\<open>/\<close> appended, so that
  its last character is kept and followed by exactly one separator; a base that ends in
  \<^verbatim>\<open>/\<close> is returned as it is.
\<close>

lemma resolveBuildOptions_nonempty_base:
  assumes "BuildOptions.base opts = Present (Some b)" and "b \<noteq> []"
  shows "\<exists>r. resolveBuildOptions (Some opts) = Inr r
           \<and> (last b \<noteq> CHR ''/'' \<longrightarrow> ResolvedBuildOptions.base r = Some (b @ ''/''))
           \<and> (last b = CHR ''/'' \<longrightarrow> ResolvedBuildOptions.base r = Some b)"
proof -
  have "ResolvedBuildOptions.base (spreadBuildOptions defaultBuildOptions opts) = Some b"
    using assms by (simp add: spreadBuildOptions_def)
  from resolveBuildOptions_base [OF this] show ?thesis
    using assms by (auto simp: ensureEndingSlash_def)
qed

text \<open>
  C3. The empty base does not end in a separator, and \<^verbatim>\<open>resolveBuildOptions\<close> returns
  it empty: the pattern \<^verbatim>\<open>/([^/])$/\<close> needs a character to match, so that no
  \<^verbatim>\<open>/\<close> is appended and the resolved options of \<^verbatim>\<open>{ base: '' }\<close> are the
  defaults with a base that has no ending slash.
\<close>

theorem resolveBuildOptions_empty_base:
  "resolveBuildOptions (Some (emptyBuildOptions\<lparr> BuildOptions.base := Present (Some []) \<rparr>))
     = Inr (defaultBuildOptions\<lparr> base := Some [] \<rparr>)"
  by (simp add: resolveBuildOptions_def spreadBuildOptions_def emptyBuildOptions_def
      defaultBuildOptions_def ensureEndingSlash_def)

text \<open>
  C8. When the \<^verbatim>\<open>minify\<close> option of the raw options is the string \<^verbatim>\<open>'false'\<close>,
  the \<^verbatim>\<open>minify\<close> of the options that \<^verbatim>\<open>resolveBuildOptions\<close> returns is the
  boolean \<^verbatim>\<open>false\<close>, and the call does return unless \<^verbatim>\<open>base\<close> is present
  with the value \<^verbatim>\<open>undefined\<close>; and for no raw options at all is the \<^verbatim>\<open>minify\<close>
  of the returned options the string \<^verbatim>\<open>'false'\<close>.
\<close>

theorem resolveBuildOptions_minify_false_string:
  "(BuildOptions.minify opts = Present (Some (MinifyStr ''false''))
      \<and> resolveBuildOptions (Some opts) = Inr r
      \<longrightarrow> ResolvedBuildOptions.minify r = Some (MinifyBool False))
   \<and> (BuildOptions.minify opts = Present (Some (MinifyStr ''false''))
      \<and> BuildOptions.base opts \<noteq> Present None
      \<longrightarrow> (\<exists>r'. resolveBuildOptions (Some opts) = Inr r'))
   \<and> (resolveBuildOptions raw = Inr r'' \<longrightarrow> ResolvedBuildOptions.minify r'' \<noteq> Some (MinifyStr ''false''))"
proof (intro conjI impI)
  assume "BuildOptions.minify opts = Present (Some (MinifyStr ''false''))
            \<and> resolveBuildOptions (Some opts) = Inr r"
  then show "ResolvedBuildOptions.minify r = Some (MinifyBool False)"
    by (auto simp: resolveBuildOptions_def spreadBuildOptions_def Let_def split: option.splits)
next
  assume "BuildOptions.minify opts = Present (Some (MinifyStr ''false''))
            \<and> BuildOptions.base opts \<noteq> Present None"
  then show "\<exists>r'. resolveBuildOptions (Some opts) = Inr r'"
    by (simp add: resolveBuildOptions_returns)
next
  assume "resolveBuildOptions raw = Inr r''"
  then show "ResolvedBuildOptions.minify r'' \<noteq> Some (MinifyStr ''false'')"
    by (auto simp: resolveBuildOptions_def Let_def split: option.splits if_splits)
qed

theorem resolveBuildOptions_minify_false_string_witness:
  "BuildOptions.minify (emptyBuildOptions\<lparr> BuildOptions.minify := Present (Some (MinifyStr ''false'')) \<rparr>)
     = Present (Some (MinifyStr ''false''))
   \<and> resolveBuildOptions
       (Some (emptyBuildOptions\<lparr> BuildOptions.minify := Present (Some (MinifyStr ''false'')) \<rparr>))
     = Inr (defaultBuildOptions\<lparr> minify := Some (MinifyBool False) \<rparr>)
   \<and> ResolvedBuildOptions.minify (defaultBuildOptions\<lparr> minify := Some (MinifyBool False) \<rparr>)
     = Some (MinifyBool False)"
proof -
  let ?opts = "emptyBuildOptions\<lparr> BuildOptions.minify := Present (Some (MinifyStr ''false'')) \<rparr>"
  let ?r = "defaultBuildOptions\<lparr> minify := Some (MinifyBool False) \<rparr>"
  have run: "resolveBuildOptions (Some ?opts) = Inr ?r"
    by (simp add: resolveBuildOptions_def spreadBuildOptions_def emptyBuildOptions_def
        defaultBuildOptions_def ensureEndingSlash_def)
  show ?thesis
    using run resolveBuildOptions_minify_false_string [of ?opts ?r]
    by simp
qed

text \<open>
  C10. \<^verbatim>\<open>resolveBuildOptions\<close> is idempotent: when it returns, resolving the returned
  options, every property of which is present, returns them again.
\<close>

theorem resolveBuildOptions_idempotent:
  assumes "resolveBuildOptions raw = Inr r"
  shows "resolveBuildOptions (Some (asBuildOptions r)) = Inr r"
  using assms
  by (auto simp: resolveBuildOptions_def spreadBuildOptions_def asBuildOptions_def Let_def
      ensureEndingSlash_idem split: option.splits if_splits)

theorem resolveBuildOptions_idempotent_witness:
  "resolveBuildOptions
     (Some (emptyBuildOptions\<lparr> BuildOptions.base := Present (Some ''/app''),
                                BuildOptions.minify := Present None \<rparr>))
     = Inr (defaultBuildOptions\<lparr> base := Some ''/app/'', minify := None \<rparr>)
   \<and> resolveBuildOptions
       (Some (asBuildOptions (defaultBuildOptions\<lparr> base := Some ''/app/'', minify := None \<rparr>)))
     = Inr (defaultBuildOptions\<lparr> base := Some ''/app/'', minify := None \<rparr>)"
proof -
  let ?raw = "Some (emptyBuildOptions\<lparr> BuildOptions.base := Present (Some ''/app''),
                                        BuildOptions.minify := Present None \<rparr>)"
  let ?r = "defaultBuildOptions\<lparr> base := Some ''/app/'', minify := None \<rparr>"
  have run: "resolveBuildOptions ?raw = Inr ?r"
    by (simp add: resolveBuildOptions_def spreadBuildOptions_def emptyBuildOptions_def
        defaultBuildOptions_def ensureEndingSlash_def)
  show ?thesis
    using run resolveBuildOptions_idempotent [OF run] by simp
qed

section \<open>Plugins\<close>

text \<open>
  C7. \<^verbatim>\<open>resolveBuildPlugins\<close> returns a list unless \<^verbatim>\<open>build.rollupOptions\<close>
  is \<^verbatim>\<open>undefined\<close>, and a list that it returns contains the terser plugin if and only
  if the resolved \<^verbatim>\<open>minify\<close> is truthy, which \<^verbatim>\<open>false\<close>,
  \<^verbatim>\<open>undefined\<close> and the empty string are not, and is not \<^verbatim>\<open>'esbuild'\<close>.
\<close>

theorem resolveBuildPlugins_terser:
  "((\<exists>ps. resolveBuildPlugins config = Inr ps)
      \<longleftrightarrow> ResolvedBuildOptions.rollupOptions (build config) \<noteq> None)
   \<and> (resolveBuildPlugins config = Inr ps
      \<longrightarrow> ((\<exists>opts. terserPlugin opts \<in> set ps)
            \<longleftrightarrow> (minify_truthy (ResolvedBuildOptions.minify (build config))
                 \<and> ResolvedBuildOptions.minify (build config) \<noteq> Some (MinifyStr ''esbuild''))))"
  by (auto simp: resolveBuildPlugins_def Let_def split: option.splits)

theorem resolveBuildPlugins_terser_witness:
  "resolveBuildPlugins (exampleConfig (Some (MinifyStr ''terser''))) =
     Inr [commonjsPlugin, buildHtmlPlugin, buildDefinePlugin, dynamicImportVars, buildEsbuildPlugin,
          terserPlugin (Some []), buildReporterPlugin]
   \<and> (\<exists>opts. terserPlugin opts \<in> set [commonjsPlugin, buildHtmlPlugin, buildDefinePlugin,
          dynamicImportVars, buildEsbuildPlugin, terserPlugin (Some []), buildReporterPlugin])
   \<and> minify_truthy (Some (MinifyStr ''terser''))"
proof -
  let ?ps = "[commonjsPlugin, buildHtmlPlugin, buildDefinePlugin, dynamicImportVars,
              buildEsbuildPlugin, terserPlugin (Some []), buildReporterPlugin]"
  have run: "resolveBuildPlugins (exampleConfig (Some (MinifyStr ''terser''))) = Inr ?ps"
    by (simp add: resolveBuildPlugins_def exampleConfig_def defaultBuildOptions_def
        emptyRollupOptions_def)
  show ?thesis
    using run resolveBuildPlugins_terser [of "exampleConfig (Some (MinifyStr ''terser''))" ?ps]
    by (simp add: exampleConfig_def)
qed

text \<open>
  A \<^verbatim>\<open>minify\<close> that is the empty string, or the \<^verbatim>\<open>undefined\<close> that
  \<^verbatim>\<open>resolveBuildOptions\<close> keeps from \<^verbatim>\<open>{ minify: undefined }\<close>, is neither
  \<^verbatim>\<open>false\<close> nor \<^verbatim>\<open>'esbuild'\<close>, and the list has no terser plugin.
\<close>

theorem resolveBuildPlugins_falsy_minify_counterexample:
  "ResolvedBuildOptions.minify (build (exampleConfig (Some (MinifyStr [])))) \<noteq> Some (MinifyBool False)
   \<and> ResolvedBuildOptions.minify (build (exampleConfig (Some (MinifyStr [])))) \<noteq> Some (MinifyStr ''esbuild'')
   \<and> resolveBuildPlugins (exampleConfig (Some (MinifyStr []))) =
       Inr [commonjsPlugin, buildHtmlPlugin, buildDefinePlugin, dynamicImportVars, buildEsbuildPlugin,
            buildReporterPlugin]
   \<and> resolveBuildOptions (Some (emptyBuildOptions\<lparr> BuildOptions.minify := Present None \<rparr>))
       = Inr (build (exampleConfig None))
   \<and> ResolvedBuildOptions.minify (build (exampleConfig None)) \<noteq> Some (MinifyBool False)
   \<and> ResolvedBuildOptions.minify (build (exampleConfig None)) \<noteq> Some (MinifyStr ''esbuild'')
   \<and> resolveBuildPlugins (exampleConfig None) =
       Inr [commonjsPlugin, buildHtmlPlugin, buildDefinePlugin, dynamicImportVars, buildEsbuildPlugin,
            buildReporterPlugin]"
  by (simp add: resolveBuildPlugins_def resolveBuildOptions_def spreadBuildOptions_def
      exampleConfig_def emptyBuildOptions_def defaultBuildOptions_def emptyRollupOptions_def
      ensureEndingSlash_def)

section \<open>Output targets\<close>

lemma format_string_inj: "inj format_string"
proof (rule injI)
  fix a b
  assume "format_string a = format_string b"
  then show "a = b" by (cases a; cases b) simp_all
qed

text \<open>
  C2. A library whose requested formats, its own or else the default pair, contain
  \<^verbatim>\<open>umd\<close> or \<^verbatim>\<open>iife\<close> and whose name is absent makes
  \<^verbatim>\<open>resolveBuildOutputs\<close> throw the error that asks for \<^verbatim>\<open>build.lib.name\<close>,
  whatever the outputs of the user are; a library with a non-empty name never fails.
\<close>

theorem resolveBuildOutputs_name_validation:
  \<open>((Umd \<in> set (requestedFormats libOpts) \<or> Iife \<in> set (requestedFormats libOpts))
      \<and> LibraryOptions.name libOpts = None
     \<longrightarrow> resolveBuildOutputs chalk outputs (Some libOpts) =
           Inl (Error ''Option "build.lib.name" is required when output formats include "umd" or "iife".''))
   \<and> ((\<exists>n. LibraryOptions.name libOpts = Some n \<and> n \<noteq> [])
     \<longrightarrow> (\<exists>r. resolveBuildOutputs chalk outputs (Some libOpts) = Inr r))\<close>
  by (auto simp: resolveBuildOutputs_def Let_def split: option.splits Outputs.splits)

theorem resolveBuildOutputs_name_validation_witness:
  \<open>resolveBuildOutputs plainChalk None (Some (exampleLibrary None (Some [Umd]))) =
     Inl (Error ''Option "build.lib.name" is required when output formats include "umd" or "iife".'')
   \<and> (\<exists>r. resolveBuildOutputs plainChalk None (Some (exampleLibrary (Some ''MyLib'') (Some [Umd])))
          = Inr r)\<close>
  using resolveBuildOutputs_name_validation [of "exampleLibrary None (Some [Umd])" plainChalk None]
    resolveBuildOutputs_name_validation
      [of "exampleLibrary (Some ''MyLib'') (Some [Umd])" plainChalk None]
  by (simp add: exampleLibrary_def requestedFormats_def)

text \<open>
  A name that is set to the empty string is read by \<^verbatim>\<open>!libOptions.name\<close> as no name:
  the library \<^verbatim>\<open>{ entry, name: '', formats: ['umd'] }\<close> fails the validation.
\<close>

theorem resolveBuildOutputs_empty_name_counterexample:
  \<open>LibraryOptions.name (exampleLibrary (Some []) (Some [Umd])) = Some []
   \<and> resolveBuildOutputs plainChalk None (Some (exampleLibrary (Some []) (Some [Umd]))) =
       Inl (Error ''Option "build.lib.name" is required when output formats include "umd" or "iife".'')\<close>
  by (simp add: resolveBuildOutputs_def exampleLibrary_def requestedFormats_def)

text \<open>
  C4. For a library with a non-empty name, and outputs of the user that are absent
  or a single object, \<^verbatim>\<open>resolveBuildOutputs\<close> returns an array with one target for each
  requested format, in the order of the formats: the object of the user (or \<^verbatim>\<open>{}\<close>) with
  \<^verbatim>\<open>format\<close> set to that format and nothing else changed. The array is as long as the
  list of formats, and distinct formats give targets of distinct formats; nothing is logged.
\<close>

theorem resolveBuildOutputs_fan_out:
  assumes "LibraryOptions.name libOpts = Some n" and "n \<noteq> []"
    and "outputs = None \<or> outputs = Some (Single override)"
  shows "\<exists>targets.
           resolveBuildOutputs chalk outputs (Some libOpts) = Inr (Some (Array targets), [])
         \<and> targets = map (\<lambda>fmt. (case outputs of None \<Rightarrow> emptyOutputOptions | Some _ \<Rightarrow> override)
                                   \<lparr> format := Some (format_string fmt) \<rparr>)
                         (requestedFormats libOpts)
         \<and> length targets = length (requestedFormats libOpts)
         \<and> (distinct (requestedFormats libOpts) \<longrightarrow> distinct (map format targets))"
proof -
  have "distinct (map (\<lambda>fmt. Some (format_string fmt)) fs)" if "distinct fs" for fs
    using that format_string_inj by (simp add: distinct_map inj_on_def inj_def)
  then show ?thesis
    using assms by (auto simp: resolveBuildOutputs_def Let_def comp_def)
qed

theorem resolveBuildOutputs_fan_out_witness:
  "resolveBuildOutputs plainChalk None (Some (exampleLibrary (Some ''MyLib'') (Some [Es, Cjs, Umd]))) =
     Inr (Some (Array [emptyOutputOptions\<lparr> format := Some ''es'' \<rparr>,
                       emptyOutputOptions\<lparr> format := Some ''cjs'' \<rparr>,
                       emptyOutputOptions\<lparr> format := Some ''umd'' \<rparr>]), [])
   \<and> distinct [Some ''es'', Some ''cjs'', Some ''umd'']"
  using resolveBuildOutputs_fan_out
    [of "exampleLibrary (Some ''MyLib'') (Some [Es, Cjs, Umd])" "''MyLib''" None emptyOutputOptions
        plainChalk]
  by (simp add: exampleLibrary_def requestedFormats_def)

text \<open>
  With the name set to the empty string and \<^verbatim>\<open>umd\<close> among three distinct formats, the
  validation throws and no target is returned.
\<close>

theorem resolveBuildOutputs_fan_out_counterexample:
  \<open>LibraryOptions.name (exampleLibrary (Some []) (Some [Es, Cjs, Umd])) = Some []
   \<and> distinct [Es, Cjs, Umd]
   \<and> resolveBuildOutputs plainChalk None (Some (exampleLibrary (Some []) (Some [Es, Cjs, Umd]))) =
       Inl (Error ''Option "build.lib.name" is required when output formats include "umd" or "iife".'')\<close>
  by (simp add: resolveBuildOutputs_def exampleLibrary_def requestedFormats_def)

text \<open>
  C9. A library whose \<^verbatim>\<open>formats\<close> is the empty list, given as such, requests no format:
  the empty list is kept, the validation passes with or without a name and whatever the
  outputs of the user are, and without outputs of the user the result is the empty array, for
  which \<^verbatim>\<open>generate\<close> is not called at all.
\<close>

theorem resolveBuildOutputs_empty_formats:
  assumes "formats libOpts = Some []"
  shows "requestedFormats libOpts = []
       \<and> (\<exists>r. resolveBuildOutputs chalk outputs (Some libOpts) = Inr r)
       \<and> resolveBuildOutputs chalk None (Some libOpts) = Inr (Some (Array []), [])
       \<and> generateCalls (Some (Array [])) = []"
  using assms
  by (auto simp: resolveBuildOutputs_def requestedFormats_def split: option.splits Outputs.splits)

theorem resolveBuildOutputs_empty_formats_witness:
  "formats (exampleLibrary None (Some [])) = Some []
   \<and> LibraryOptions.name (exampleLibrary None (Some [])) = None
   \<and> resolveBuildOutputs plainChalk None (Some (exampleLibrary None (Some []))) = Inr (Some (Array []), [])
   \<and> generateCalls (Some (Array [])) = []"
  using resolveBuildOutputs_empty_formats [of "exampleLibrary None (Some [])" plainChalk None]
  by (simp add: exampleLibrary_def)

end
